theory Spec2Isabelle
  imports Main "HOL-Library.Log_Nat"
begin

section \<open>JavaScript numbers\<close>

text \<open>
  A JavaScript number is an IEEE 754 double. The model keeps the exact rational value of a
  finite double and has NaN and the two infinities as values of their own. The two zeros
  are both \<open>Fin 0\<close>: they compare equal, and the code modelled below divides by the
  positive constants 4, 2.8 and 5 only, so none of its operations tells them apart.
\<close>

datatype jsnum = NaN | PosInf | NegInf | Fin rat

definition pow2 :: "int \<Rightarrow> rat" where
  "pow2 e = (if 0 \<le> e then 2 ^ nat e else 1 / 2 ^ nat (- e))"

text \<open>The binary exponent of a positive rational: \<open>pow2 e \<le> a < pow2 (e + 1)\<close>.\<close>

definition floor_log2 :: "rat \<Rightarrow> int" where
  "floor_log2 a =
     (let (p, q) = quotient_of a;
          d = bitlen p - bitlen q
      in if pow2 d \<le> a then d else d - 1)"

text \<open>Rounding a non-negative rational to an integer, ties to the even neighbour.\<close>

definition round_half_even :: "rat \<Rightarrow> int" where
  "round_half_even x =
     (let f = \<lfloor>x\<rfloor>; r = x - of_int f
      in if r < 1 / 2 then f
         else if 1 / 2 < r then f + 1
         else if even f then f else f + 1)"

text \<open>
  Round to nearest double, ties to even: 53 significant bits, least exponent -1022
  (below it the spacing stays \<open>2^-1074\<close>). The result overflows to an infinity
  when it reaches \<open>2^1024\<close>, that is when the exponent is above 1023 or the
  significand at exponent 1023 rounds up to \<open>2^53 = 9007199254740992\<close>.
\<close>

definition round_double :: "rat \<Rightarrow> jsnum" where
  "round_double q =
     (if q = 0 then Fin 0
      else
        let a = \<bar>q\<bar>;
            e = max (floor_log2 a) (- 1022);
            u = pow2 (e - 52);
            n = round_half_even (a / u)
        in if 1024 \<le> e \<or> (e = 1023 \<and> 9007199254740992 \<le> n)
           then (if 0 < q then PosInf else NegInf)
           else Fin (if 0 < q then of_int n * u else - (of_int n * u)))"

text \<open>\<open>a <= b\<close> and \<open>a > b\<close>: every comparison with NaN is false.\<close>

fun js_le :: "jsnum \<Rightarrow> jsnum \<Rightarrow> bool" where
  "js_le NaN _ = False"
| "js_le _ NaN = False"
| "js_le NegInf _ = True"
| "js_le _ PosInf = True"
| "js_le PosInf _ = False"
| "js_le _ NegInf = False"
| "js_le (Fin a) (Fin b) = (a \<le> b)"

fun js_gt :: "jsnum \<Rightarrow> jsnum \<Rightarrow> bool" where
  "js_gt NaN _ = False"
| "js_gt _ NaN = False"
| "js_gt NegInf _ = False"
| "js_gt _ PosInf = False"
| "js_gt PosInf _ = True"
| "js_gt _ NegInf = True"
| "js_gt (Fin a) (Fin b) = (b < a)"

text \<open>The sign of a number that is not NaN: -1, 0 or 1.\<close>

fun js_sign :: "jsnum \<Rightarrow> int" where
  "js_sign NaN = 0"
| "js_sign PosInf = 1"
| "js_sign NegInf = - 1"
| "js_sign (Fin a) = (if a < 0 then - 1 else if a = 0 then 0 else 1)"

definition inf_of_sign :: "int \<Rightarrow> jsnum" where
  "inf_of_sign s = (if 0 < s then PosInf else NegInf)"

text \<open>\<open>a * b\<close>: infinity times zero is NaN.\<close>

fun js_mul :: "jsnum \<Rightarrow> jsnum \<Rightarrow> jsnum" where
  "js_mul NaN _ = NaN"
| "js_mul _ NaN = NaN"
| "js_mul (Fin a) (Fin b) = round_double (a * b)"
| "js_mul x y =
     (if js_sign x * js_sign y = 0 then NaN else inf_of_sign (js_sign x * js_sign y))"

text \<open>
  \<open>a / b\<close>: infinity by infinity and zero by zero are NaN, a finite number by an
  infinity is a zero. A zero divisor is read as +0.
\<close>

fun js_div :: "jsnum \<Rightarrow> jsnum \<Rightarrow> jsnum" where
  "js_div NaN _ = NaN"
| "js_div _ NaN = NaN"
| "js_div (Fin a) (Fin b) =
     (if b = 0 then (if a = 0 then NaN else inf_of_sign (js_sign (Fin a)))
      else round_double (a / b))"
| "js_div (Fin a) _ = Fin 0"
| "js_div x (Fin b) = inf_of_sign (js_sign x * (if b < 0 then - 1 else 1))"
| "js_div _ _ = NaN"

text \<open>\<open>Math.max\<close> of two numbers: NaN if either is.\<close>

fun js_max2 :: "jsnum \<Rightarrow> jsnum \<Rightarrow> jsnum" where
  "js_max2 NaN _ = NaN"
| "js_max2 _ NaN = NaN"
| "js_max2 a b = (if js_le a b then b else a)"

text \<open>\<open>Math.max(a, b, c)\<close>.\<close>

definition js_max3 :: "jsnum \<Rightarrow> jsnum \<Rightarrow> jsnum \<Rightarrow> jsnum" where
  "js_max3 a b c = js_max2 (js_max2 a b) c"

text \<open>Unary minus.\<close>

fun js_neg :: "jsnum \<Rightarrow> jsnum" where
  "js_neg NaN = NaN"
| "js_neg PosInf = NegInf"
| "js_neg NegInf = PosInf"
| "js_neg (Fin a) = Fin (- a)"

section \<open>Strings and \<open>parseFloat\<close>\<close>

text \<open>
  A string is the list of the bytes of its UTF-8 encoding. \<open>parseFloat\<close> drops leading
  white space and line terminators, then reads the longest prefix that is a decimal
  literal (an optional sign, then \<open>Infinity\<close> or digits with an optional fraction and an
  optional exponent) and returns NaN when there is no such prefix. Whatever follows the
  prefix is ignored.
\<close>

text \<open>Tab, line feed, vertical tab, form feed, carriage return, space.\<close>

definition ws1 :: "char \<Rightarrow> bool" where
  "ws1 c = (of_char c \<in> {9, 10, 11, 12, 13, 32 :: nat})"

text \<open>U+00A0.\<close>

definition ws2 :: "char \<Rightarrow> char \<Rightarrow> bool" where
  "ws2 c1 c2 = (of_char c1 = (0xC2 :: nat) \<and> of_char c2 = (0xA0 :: nat))"

text \<open>
  U+1680, U+2000 to U+200A, U+2028, U+2029, U+202F, U+205F, U+3000 and U+FEFF.
\<close>

definition ws3 :: "char \<Rightarrow> char \<Rightarrow> char \<Rightarrow> bool" where
  "ws3 c1 c2 c3 =
     (let a = of_char c1 :: nat; b = of_char c2 :: nat; c = of_char c3 :: nat
      in (a = 0xE1 \<and> b = 0x9A \<and> c = 0x80)
       \<or> (a = 0xE2 \<and> b = 0x80 \<and> ((0x80 \<le> c \<and> c \<le> 0x8A) \<or> c = 0xA8 \<or> c = 0xA9 \<or> c = 0xAF))
       \<or> (a = 0xE2 \<and> b = 0x81 \<and> c = 0x9F)
       \<or> (a = 0xE3 \<and> b = 0x80 \<and> c = 0x80)
       \<or> (a = 0xEF \<and> b = 0xBB \<and> c = 0xBF))"

fun trimStart :: "string \<Rightarrow> string" where
  "trimStart (c1 # c2 # c3 # cs) =
     (if ws1 c1 then trimStart (c2 # c3 # cs)
      else if ws2 c1 c2 then trimStart (c3 # cs)
      else if ws3 c1 c2 c3 then trimStart cs
      else c1 # c2 # c3 # cs)"
| "trimStart [c1, c2] =
     (if ws1 c1 then trimStart [c2] else if ws2 c1 c2 then [] else [c1, c2])"
| "trimStart [c1] = (if ws1 c1 then [] else [c1])"
| "trimStart [] = []"

definition is_digit :: "char \<Rightarrow> bool" where
  "is_digit c = (48 \<le> (of_char c :: nat) \<and> (of_char c :: nat) \<le> 57)"

definition digits_value :: "string \<Rightarrow> int" where
  "digits_value ds = foldl (\<lambda>n c. 10 * n + (int (of_char c) - 48)) 0 ds"

definition pow10 :: "int \<Rightarrow> rat" where
  "pow10 e = (if 0 \<le> e then 10 ^ nat e else 1 / 10 ^ nat (- e))"

text \<open>The digits of an exponent part, with the sign read before them; 0 without digits.\<close>

definition exponent_digits :: "int \<Rightarrow> string \<Rightarrow> int" where
  "exponent_digits sg r =
     (let ds = takeWhile is_digit r in if ds = [] then 0 else sg * digits_value ds)"

text \<open>
  The exponent that follows a mantissa: \<open>e\<close> or \<open>E\<close>, an optional sign and at least one
  digit. Anything else is no exponent part, and the literal ends before it.
\<close>

definition parse_exponent :: "string \<Rightarrow> int" where
  "parse_exponent r =
     (case r of
        [] \<Rightarrow> 0
      | c # r1 \<Rightarrow>
          if c = CHR ''e'' \<or> c = CHR ''E'' then
            (case r1 of
               [] \<Rightarrow> 0
             | sg # r2 \<Rightarrow>
                 if sg = CHR ''+'' then exponent_digits 1 r2
                 else if sg = CHR ''-'' then exponent_digits (- 1) r2
                 else exponent_digits 1 r1)
          else 0)"

text \<open>The unsigned literal at the head of a string, if there is one.\<close>

definition parse_unsigned :: "string \<Rightarrow> jsnum option" where
  "parse_unsigned s =
     (if take 8 s = ''Infinity'' then Some PosInf
      else
        let ip = takeWhile is_digit s; r1 = dropWhile is_digit s
        in case r1 of
             [] \<Rightarrow> if ip = [] then None else Some (round_double (of_int (digits_value ip)))
           | c # r2 \<Rightarrow>
               if c = CHR ''.'' then
                 (let fp = takeWhile is_digit r2; r3 = dropWhile is_digit r2
                  in if ip = [] \<and> fp = [] then None
                     else Some (round_double
                       (of_int (digits_value (ip @ fp))
                          * pow10 (parse_exponent r3 - int (length fp)))))
               else if ip = [] then None
               else Some (round_double (of_int (digits_value ip) * pow10 (parse_exponent r1))))"

definition parseFloat :: "string \<Rightarrow> jsnum" where
  "parseFloat s =
     (let t = trimStart s
      in case t of
           [] \<Rightarrow> NaN
         | c # r \<Rightarrow>
             if c = CHR ''+'' then (case parse_unsigned r of None \<Rightarrow> NaN | Some v \<Rightarrow> v)
             else if c = CHR ''-'' then
               (case parse_unsigned r of None \<Rightarrow> NaN | Some v \<Rightarrow> js_neg v)
             else (case parse_unsigned t of None \<Rightarrow> NaN | Some v \<Rightarrow> v))"

section \<open>Customization from the URL parameters\<close>

text \<open>
  The interface marks \<open>pattern\<close> and \<open>material\<close> optional; both places that build a
  \<open>Customization\<close> set all four fields.
\<close>

record Customization =
  color :: string
  scale :: jsnum
  pattern :: string
  material :: string

text \<open>
  The pairs of a \<open>URLSearchParams\<close> object, in order. \<open>get\<close> returns the value of the
  first pair with the name, or null.
\<close>

type_synonym URLSearchParams = "(string \<times> string) list"

definition get :: "URLSearchParams \<Rightarrow> string \<Rightarrow> string option" where
  "get params name = map_of params name"

text \<open>\<open>v || d\<close> on a string or null: null and the empty string are falsy.\<close>

definition or_default :: "string option \<Rightarrow> string \<Rightarrow> string" where
  "or_default v d = (case v of None \<Rightarrow> d | Some x \<Rightarrow> if x = [] then d else x)"

definition parseUrlParams :: "URLSearchParams \<Rightarrow> Customization" where
  "parseUrlParams params =
     \<lparr>color = or_default (get params ''color'') ''#FFFFFF'',
      scale = parseFloat (or_default (get params ''scale'') ''1.0''),
      pattern = or_default (get params ''pattern'') ''solid'',
      material = or_default (get params ''material'') ''default''\<rparr>"

section \<open>Capability detection\<close>

text \<open>The state of a promise: the caller of an async function sees one of these.\<close>

datatype 'a promise = Fulfilled 'a | Rejected | Pending

text \<open>
  What \<open>navigator.xr.isSessionSupported('immersive-ar')\<close> does: the promise resolves,
  the promise rejects, the call itself throws (also when \<open>navigator.xr\<close> holds no such
  method), or the promise never settles.
\<close>

datatype xr_query = XRResolves bool | XRRejects | XRThrows | XRPending

text \<open>\<open>'xr' in navigator\<close>.\<close>

datatype navigator_xr = XRAbsent | XRPresent xr_query

definition supportsWebXR :: "navigator_xr \<Rightarrow> bool promise" where
  "supportsWebXR nav =
     (case nav of
        XRPresent q \<Rightarrow>
          (case q of
             XRResolves b \<Rightarrow> Fulfilled b
           | XRRejects \<Rightarrow> Fulfilled False
           | XRThrows \<Rightarrow> Fulfilled False
           | XRPending \<Rightarrow> Pending)
      | XRAbsent \<Rightarrow> Fulfilled False)"

section \<open>Fit check\<close>

record Dimensions =
  width :: jsnum
  height :: jsnum
  depth :: jsnum

record FitCheckResult =
  fits :: bool
  message :: string
  icon :: string
  color :: string

text \<open>
  The icon glyphs and the marks of the status messages are outside ASCII; they are given
  by their UTF-8 bytes as they stand in \<^verbatim>\<open>welcome.tsx\<close>.
\<close>

definition warning_sign :: string where
  "warning_sign = [CHR 0xE2, CHR 0x9A, CHR 0xA0, CHR 0xEF, CHR 0xB8, CHR 0x8F]"

definition high_voltage :: string where
  "high_voltage = [CHR 0xE2, CHR 0x9A, CHR 0xA1]"

definition check_mark :: string where
  "check_mark = [CHR 0xE2, CHR 0x9C, CHR 0x93]"

definition ballot_x :: string where
  "ballot_x = [CHR 0xE2, CHR 0x9C, CHR 0x97]"

text \<open>The assumed room, in metres. The literal 2.8 denotes the double nearest to it.\<close>

definition estimatedRoomWidth :: jsnum where
  "estimatedRoomWidth = Fin 4"

definition estimatedRoomHeight :: jsnum where
  "estimatedRoomHeight = round_double (28 / 10)"

definition estimatedRoomDepth :: jsnum where
  "estimatedRoomDepth = Fin 5"

definition allFit :: "Dimensions \<Rightarrow> bool" where
  "allFit d =
     (js_le (width d) estimatedRoomWidth \<and>
      js_le (height d) estimatedRoomHeight \<and>
      js_le (depth d) estimatedRoomDepth)"

definition spaceUsage :: "Dimensions \<Rightarrow> jsnum" where
  "spaceUsage d =
     js_max3 (js_mul (js_div (width d) estimatedRoomWidth) (Fin 100))
             (js_mul (js_div (height d) estimatedRoomHeight) (Fin 100))
             (js_mul (js_div (depth d) estimatedRoomDepth) (Fin 100))"

definition critical_result :: FitCheckResult where
  "critical_result =
     \<lparr>fits = False, message = ''Object may not fit here - Too large for space'',
      icon = warning_sign, color = ''#ef4444''\<rparr>"

definition warning_result :: FitCheckResult where
  "warning_result =
     \<lparr>fits = True, message = ''Tight fit - Limited space around object'',
      icon = high_voltage, color = ''#f59e0b''\<rparr>"

definition good_result :: FitCheckResult where
  "good_result =
     \<lparr>fits = True, message = ''Good fit - Comfortable space'',
      icon = check_mark, color = ''#10b981''\<rparr>"

definition excellent_result :: FitCheckResult where
  "excellent_result =
     \<lparr>fits = True, message = ''Perfect fit - Plenty of space!'',
      icon = check_mark, color = ''#10b981''\<rparr>"

text \<open>The verdict computed by the fit check effect, from the dimensions to \<open>result\<close>.\<close>

definition evaluate :: "Dimensions \<Rightarrow> FitCheckResult" where
  "evaluate d =
     (if \<not> allFit d then critical_result
      else if js_gt (spaceUsage d) (Fin 80) then warning_result
      else if js_gt (spaceUsage d) (Fin 60) then good_result
      else excellent_result)"

section \<open>The component: state, effects and handlers\<close>

datatype ARStatus = Idle | Detecting | Ready | Placed | SessionStarted | Failed

text \<open>What the handlers read of the viewer element held in \<open>modelViewerRef\<close>.\<close>

record ModelViewer =
  canActivateAR :: bool

record ViewerState =
  isMobile :: bool
  isIOS :: bool
  webXRSupported :: bool
  showConfirmation :: bool
  customizations :: Customization
  arStatus :: ARStatus
  captureEnabled :: bool
  showMeasurements :: bool
  dimensions :: "Dimensions option"
  fitCheckResult :: "FitCheckResult option"
  customUSDZUrl :: string
  isModelLoaded :: bool
  showInstructions :: bool
  captureStatus :: string
  modelViewerRef :: "ModelViewer option"

text \<open>The anchor element built for the download.\<close>

record Link =
  href :: string
  download :: string

text \<open>
  What a handler does to the world outside the state, in the order it does it.
  \<open>SetTimeoutClearStatus ms\<close> is the timer that empties \<open>captureStatus\<close>.
\<close>

datatype effect =
    ConsoleLog "string list"
  | ConsoleError string
  | Alert string
  | Vibrate "nat list"
  | ActivateAR
  | ToBlob
  | CreateObjectURL string
  | AppendChild Link
  | Click Link
  | RemoveChild Link
  | RevokeObjectURL string
  | SetTimeoutClearStatus nat

text \<open>The values given to \<open>useState\<close> and \<open>useRef\<close>.\<close>

definition initialState :: ViewerState where
  "initialState =
     \<lparr>isMobile = False, isIOS = False, webXRSupported = False, showConfirmation = False,
      customizations =
        \<lparr>Customization.color = ''#FFFFFF'', scale = Fin 1, pattern = ''solid'',
         material = ''default''\<rparr>,
      arStatus = Idle, captureEnabled = False, showMeasurements = False,
      dimensions = None, fitCheckResult = None, customUSDZUrl = [],
      isModelLoaded = False, showInstructions = True, captureStatus = [],
      modelViewerRef = None\<rparr>"

text \<open>
  The fit check effect, run when \<open>dimensions\<close> changes. The first argument of this and
  of the later handlers is \<open>'vibrate' in navigator\<close>.
\<close>

definition fitCheckEffect :: "bool \<Rightarrow> ViewerState \<Rightarrow> ViewerState \<times> effect list" where
  "fitCheckEffect hasVibrate s =
     (case dimensions s of
        None \<Rightarrow> (s, [])
      | Some d \<Rightarrow>
          let result = evaluate d
          in (s\<lparr>fitCheckResult := Some result\<rparr>,
              if hasVibrate \<and> fits result then [Vibrate [50]] else []))"

definition handleARStatus ::
  "bool \<Rightarrow> string \<Rightarrow> ViewerState \<Rightarrow> ViewerState \<times> effect list" where
  "handleARStatus hasVibrate status s =
     (if status = ''not-presenting'' then
        (s\<lparr>arStatus := Idle, showMeasurements := False\<rparr>,
         [ConsoleLog [''AR Status:'', status]])
      else if status = ''session-started'' then
        (s\<lparr>arStatus := SessionStarted, showMeasurements := True\<rparr>,
         ConsoleLog [''AR Status:'', status]
           # (if hasVibrate then [Vibrate [50, 100, 50]] else []))
      else if status = ''object-placed'' then
        (s\<lparr>arStatus := Placed\<rparr>,
         ConsoleLog [''AR Status:'', status] # (if hasVibrate then [Vibrate [200]] else []))
      else if status = ''failed'' then
        (s\<lparr>arStatus := Failed\<rparr>,
         [ConsoleLog [''AR Status:'', status], Alert ''AR session failed. Please try again.''])
      else (s, [ConsoleLog [''AR Status:'', status]]))"

text \<open>The handler on a sequence of status events, oldest first, with all their effects.\<close>

fun handleARStatuses ::
  "bool \<Rightarrow> string list \<Rightarrow> ViewerState \<Rightarrow> ViewerState \<times> effect list" where
  "handleARStatuses hasVibrate [] s = (s, [])"
| "handleARStatuses hasVibrate (status # rest) s =
     (let (s1, e1) = handleARStatus hasVibrate status s;
          (s2, e2) = handleARStatuses hasVibrate rest s1
      in (s2, e1 @ e2))"

definition handleViewInARClick :: "ViewerState \<Rightarrow> ViewerState \<times> effect list" where
  "handleViewInARClick s =
     (if isMobile s then (s\<lparr>showConfirmation := True\<rparr>, [])
      else (s, [ConsoleLog [''Desktop: QR code displayed automatically'']]))"

text \<open>\<open>n\<close> requests in a row.\<close>

fun viewInARClicks :: "nat \<Rightarrow> ViewerState \<Rightarrow> ViewerState \<times> effect list" where
  "viewInARClicks 0 s = (s, [])"
| "viewInARClicks (Suc n) s =
     (let (s1, e1) = handleViewInARClick s;
          (s2, e2) = viewInARClicks n s1
      in (s2, e1 @ e2))"

definition handleConfirmation :: "bool \<Rightarrow> ViewerState \<Rightarrow> ViewerState \<times> effect list" where
  "handleConfirmation allow s =
     (let s1 = s\<lparr>showConfirmation := False\<rparr>
      in if allow then
           (case modelViewerRef s1 of
              None \<Rightarrow> (s1, [Alert ''AR not available on this device''])
            | Some modelViewer \<Rightarrow>
                if canActivateAR modelViewer then (s1\<lparr>arStatus := Detecting\<rparr>, [ActivateAR])
                else (s1, [Alert ''AR not available on this device'']))
         else (s1, []))"

definition toggleMeasurements :: "ViewerState \<Rightarrow> ViewerState \<times> effect list" where
  "toggleMeasurements s = (s\<lparr>showMeasurements := \<not> showMeasurements s\<rparr>, [])"

section \<open>Capture\<close>

text \<open>A call that returns a value or throws.\<close>

datatype 'a attempt = Returns 'a | Throws

text \<open>
  The child elements of \<open>document.body\<close>, each element a number. \<open>createElement\<close>
  makes an element that is none of them, \<open>appendChild\<close> puts it last, and
  \<open>removeChild\<close> throws (\<open>NotFoundError\<close>) when the element is not a child and takes
  it out otherwise.
\<close>

type_synonym node = nat

definition createElement :: "node list \<Rightarrow> node" where
  "createElement children = Suc (fold max children 0)"

definition appendChild :: "node list \<Rightarrow> node \<Rightarrow> node list" where
  "appendChild children n = children @ [n]"

definition removeChild :: "node list \<Rightarrow> node \<Rightarrow> node list attempt" where
  "removeChild children n =
     (if n \<in> set children then Returns (remove1 n children) else Throws)"

text \<open>
  What the browser does during one capture: how the promise of \<open>toBlob\<close> settles (a
  call of \<open>toBlob\<close> that throws counts as a rejection: both go to the \<open>catch\<close> block), what
  \<open>URL.createObjectURL\<close> returns, the clock as \<open>toISOString\<close> prints it, the children
  of \<open>document.body\<close> when the link is made, and whether \<open>navigator\<close> has \<open>vibrate\<close>.

  The handler runs on a click of a button inside the body, so \<open>document.body\<close> is
  there. Of the statements between \<open>createObjectURL\<close> and \<open>revokeObjectURL\<close>,
  \<open>createElement('a')\<close>, \<open>toISOString\<close> of the present time, \<open>replace\<close>, the two
  assignments to the link and \<open>appendChild\<close> of a new element to the body do not
  throw. \<open>click\<close> hands the event to the listeners and does not pass on what they throw;
  the link has no listener, and no handler of the component touches the children of the
  body, so they are after the click what they were before. \<open>removeChild\<close> is the one
  call of these that has a throwing branch.
\<close>

record CaptureEnv =
  toBlob :: "unit promise"
  createObjectURL :: "string attempt"
  toISOString :: string
  bodyChildren :: "node list"
  vibrateInNavigator :: bool

text \<open>\<open>.replace(/[:.]/g, '-')\<close>.\<close>

definition replace_colons_periods :: "string \<Rightarrow> string" where
  "replace_colons_periods t =
     map (\<lambda>c. if c = CHR '':'' \<or> c = CHR ''.'' then CHR ''-'' else c) t"

text \<open>The \<open>catch\<close> block, after the effects already made in the \<open>try\<close> block.\<close>

definition capture_catch ::
  "ViewerState \<Rightarrow> effect list \<Rightarrow> ViewerState \<times> effect list \<times> unit promise" where
  "capture_catch s done =
     (s\<lparr>captureStatus := ''Capture failed '' @ ballot_x\<rparr>,
      done @ [ConsoleError ''Capture failed:'', SetTimeoutClearStatus 2000],
      Fulfilled ())"

text \<open>
  \<open>captureARImage\<close>: the new state, the effects, and the promise the async function
  leaves to its caller. Until \<open>toBlob\<close> settles the function is suspended at its
  \<open>await\<close>, with the status set and nothing else done.
\<close>

definition captureARImage ::
  "CaptureEnv \<Rightarrow> ViewerState \<Rightarrow> ViewerState \<times> effect list \<times> unit promise" where
  "captureARImage env s =
     (case modelViewerRef s of
        None \<Rightarrow> (s, [Alert ''Model viewer not ready''], Fulfilled ())
      | Some modelViewer \<Rightarrow>
          let s1 = s\<lparr>captureStatus := ''Capturing...''\<rparr>
          in case toBlob env of
               Pending \<Rightarrow> (s1, [ToBlob], Pending)
             | Rejected \<Rightarrow> capture_catch s1 [ToBlob]
             | Fulfilled blob \<Rightarrow>
                 (case createObjectURL env of
                    Throws \<Rightarrow> capture_catch s1 [ToBlob]
                  | Returns url \<Rightarrow>
                      let node = createElement (bodyChildren env);
                          timestamp = replace_colons_periods (toISOString env);
                          link = \<lparr>href = url,
                                  download = ''ar-product-'' @ timestamp @ ''.png''\<rparr>;
                          children = appendChild (bodyChildren env) node;
                          created = [ToBlob, CreateObjectURL url, AppendChild link, Click link]
                      in case removeChild children node of
                           Throws \<Rightarrow> capture_catch s1 created
                         | Returns children' \<Rightarrow>
                             (s1\<lparr>captureStatus := ''Image saved! '' @ check_mark\<rparr>,
                              created
                                @ [RemoveChild link, RevokeObjectURL url]
                                @ (if vibrateInNavigator env then [Vibrate [50, 50, 50]]
                                   else [])
                                @ [SetTimeoutClearStatus 2000],
                              Fulfilled ())))"

section \<open>Rounding to a double\<close>

text \<open>
  The exponent found by \<open>floor_log2\<close> is the binary exponent, and a finite result of
  \<open>round_double\<close> is a multiple of the spacing of the doubles at that exponent, at
  most half a spacing away from the number rounded.
\<close>

lemma pow2_powi: "pow2 e = 2 powi e"
  by (simp add: pow2_def power_int_def inverse_eq_divide power_one_over)

lemma floor_log2_bounds:
  assumes "0 < a"
  shows "pow2 (floor_log2 a) \<le> a \<and> a < pow2 (floor_log2 a + 1)"
proof -
  obtain p q where pq: "quotient_of a = (p, q)" by (cases "quotient_of a")
  then have q: "0 < q" and a: "a = of_int p / of_int q"
    using quotient_of_denom_pos [OF pq] quotient_of_div [OF pq] by auto
  with assms have p: "0 < p"
    by (simp add: zero_less_divide_iff)
  define m where "m = nat (bitlen p - 1)"
  define n where "n = nat (bitlen q - 1)"
  have "bitlen p \<noteq> 0" "bitlen q \<noteq> 0"
    using p q by (simp_all add: bitlen_eq_zero_iff)
  then have "1 \<le> bitlen p" "1 \<le> bitlen q"
    using bitlen_nonneg [of p] bitlen_nonneg [of q] by linarith+
  then have bl: "bitlen p = int m + 1" "bitlen q = int n + 1"
    by (simp_all add: m_def n_def)
  have nb: "nat (bitlen p) = m + 1" "nat (bitlen q) = n + 1"
    by (simp_all only: bl)
  have "2 ^ m \<le> p" "p < 2 ^ (m + 1)" "2 ^ n \<le> q" "q < 2 ^ (n + 1)"
    using bitlen_bounds [OF p] bitlen_bounds [OF q]
    unfolding nb m_def [symmetric] n_def [symmetric] by blast+
  then have P: "(2::rat) ^ m \<le> of_int p" "(of_int p :: rat) < 2 ^ (m + 1)"
    and Q: "(2::rat) ^ n \<le> of_int q" "(of_int q :: rat) < 2 ^ (n + 1)"
    by (metis of_int_le_iff of_int_less_iff of_int_numeral of_int_power)+
  have qpos: "(0::rat) < of_int q" using q by simp
  have ppos: "(0::rat) < of_int p" using p by simp
  have lo: "2 powi (int m - int n - 1) < a"
  proof -
    have "2 powi (int m - int n - 1) = (2::rat) ^ m / 2 ^ (n + 1)"
      by (simp add: power_int_diff power_int_add algebra_simps)
    also have "\<dots> < a"
      unfolding a using P Q qpos ppos
      by (intro frac_less2) simp_all
    finally show ?thesis .
  qed
  have hi: "a < 2 powi (int m - int n + 1)"
  proof -
    have "a < (2::rat) ^ (m + 1) / 2 ^ n"
      unfolding a using P Q qpos ppos
      by (intro frac_less) simp_all
    also have "\<dots> = 2 powi (int m - int n + 1)"
      by (simp add: power_int_diff power_int_add algebra_simps)
    finally show ?thesis .
  qed
  have fl: "floor_log2 a = (if pow2 (int m - int n) \<le> a then int m - int n else int m - int n - 1)"
    by (simp add: floor_log2_def pq bl)
  show ?thesis
    using lo hi by (auto simp: fl pow2_powi)
qed

lemma round_half_even_near: "\<bar>x - of_int (round_half_even x)\<bar> \<le> 1 / 2"
  unfolding round_half_even_def Let_def
  by (auto simp: abs_if) linarith+


lemma pow2_pos: "0 < pow2 e"
  by (simp add: pow2_powi)

lemma round_double_nearest:
  assumes "round_double q = Fin r" and "q \<noteq> 0"
  shows "\<exists>n::int. r = of_int n * pow2 (max (floor_log2 \<bar>q\<bar>) (- 1022) - 52)
           \<and> \<bar>q - r\<bar> \<le> pow2 (max (floor_log2 \<bar>q\<bar>) (- 1022) - 52) / 2"
proof -
  define u where "u = pow2 (max (floor_log2 \<bar>q\<bar>) (- 1022) - 52)"
  define n where "n = round_half_even (\<bar>q\<bar> / u)"
  have u: "0 < u" by (simp add: u_def pow2_pos)
  have near: "\<bar>\<bar>q\<bar> - of_int n * u\<bar> \<le> u / 2"
  proof -
    have "\<bar>\<bar>q\<bar> / u - of_int n\<bar> \<le> 1 / 2"
      unfolding n_def by (rule round_half_even_near)
    then have "\<bar>\<bar>q\<bar> / u - of_int n\<bar> * u \<le> 1 / 2 * u"
      using u by (intro mult_right_mono) simp_all
    moreover have "\<bar>\<bar>q\<bar> / u - of_int n\<bar> * u = \<bar>\<bar>q\<bar> - of_int n * u\<bar>"
    proof -
      have "\<bar>\<bar>q\<bar> / u - of_int n\<bar> * u = \<bar>(\<bar>q\<bar> / u - of_int n) * u\<bar>"
        using u by (simp only: abs_mult abs_of_pos)
      also have "(\<bar>q\<bar> / u - of_int n) * u = \<bar>q\<bar> - of_int n * u"
        using u by (simp add: left_diff_distrib)
      finally show ?thesis .
    qed
    ultimately show ?thesis by simp
  qed
  have r: "r = (if 0 < q then of_int n * u else - (of_int n * u))"
    using assms by (simp add: round_double_def Let_def u_def n_def split: if_splits)
  show ?thesis
  proof (cases "0 < q")
    case True
    with r near have "r = of_int n * u \<and> \<bar>q - r\<bar> \<le> u / 2" by simp
    then show ?thesis unfolding u_def by blast
  next
    case False
    with assms have neg: "q < 0" by simp
    with r near have "r = of_int (- n) * u \<and> \<bar>q - r\<bar> \<le> u / 2"
      by (simp add: abs_if split: if_splits)
    then show ?thesis unfolding u_def by blast
  qed
qed

lemma round_double_examples:
  "round_double (1 / 10) = Fin (3602879701896397 / 2 ^ 55)"
  "round_double (28 / 10) = Fin (3152519739159347 / 2 ^ 50)"
  "round_double (- 1 / 3) = Fin (- 6004799503160661 / 2 ^ 54)"
  "round_double 9007199254740993 = Fin 9007199254740992"
  "round_double 9007199254740995 = Fin 9007199254740996"
  by code_simp+

section \<open>Properties of \<open>parseUrlParams\<close>\<close>

lemma parseUrlParams_scale_given:
  "get params ''scale'' = Some v \<Longrightarrow> v \<noteq> [] \<Longrightarrow>
     scale (parseUrlParams params) = parseFloat v"
  by (simp add: parseUrlParams_def or_default_def)

lemma parseUrlParams_scale_missing:
  "get params ''scale'' = None \<or> get params ''scale'' = Some [] \<Longrightarrow>
     scale (parseUrlParams params) = Fin 1"
proof -
  have "parseFloat ''1.0'' = Fin 1" by code_simp
  then show "get params ''scale'' = None \<or> get params ''scale'' = Some [] \<Longrightarrow>
     scale (parseUrlParams params) = Fin 1"
    by (auto simp: parseUrlParams_def or_default_def)
qed

text \<open>
  C1. The claim: a \<open>scale\<close> parameter that is present but is no number gives
  \<open>scale = 1.0\<close>. The code gives the default only to a missing or empty value; the
  value \<open>abc\<close> goes to \<open>parseFloat\<close> as it is, and the scale is NaN, not 1.
\<close>

theorem parseUrlParams_scale_abc:
  "scale (parseUrlParams [(''scale'', ''abc'')]) = NaN
   \<and> scale (parseUrlParams [(''scale'', ''abc'')]) \<noteq> Fin 1"
  by code_simp

text \<open>
  C9. \<open>parseUrlParams\<close> has no failing branch (it is a function of the parameter
  list into \<open>Customization\<close>), and on the empty parameter list it returns the four
  defaults, the scale being the number 1.
\<close>

theorem parseUrlParams_empty:
  "parseUrlParams [] =
     \<lparr>Customization.color = ''#FFFFFF'', scale = Fin 1, pattern = ''solid'',
      material = ''default''\<rparr>"
  by code_simp

section \<open>Properties of \<open>supportsWebXR\<close>\<close>

text \<open>
  C7. When \<open>navigator\<close> has no \<open>xr\<close>, or the query rejects or throws, the promise of
  \<open>supportsWebXR\<close> is fulfilled with false; and in no case at all is it rejected.
\<close>

theorem supportsWebXR_never_rejects:
  "(nav = XRAbsent \<or> nav = XRPresent XRRejects \<or> nav = XRPresent XRThrows
      \<longrightarrow> supportsWebXR nav = Fulfilled False)
   \<and> supportsWebXR nav \<noteq> Rejected"
  by (cases nav) (auto simp: supportsWebXR_def split: xr_query.splits)

theorem supportsWebXR_never_rejects_witness:
  "supportsWebXR (XRPresent XRRejects) = Fulfilled False
   \<and> supportsWebXR (XRPresent XRRejects) \<noteq> Rejected"
  using supportsWebXR_never_rejects [of "XRPresent XRRejects"] by simp

section \<open>Properties of the AR status handler\<close>

text \<open>
  C5. The events session-started, object-placed, not-presenting, handled in this order,
  leave the status idle and the measurement overlay hidden and change nothing else of the
  state. This holds from every state, so from the idle one too.
\<close>

theorem handleARStatuses_back_to_idle:
  "fst (handleARStatuses hasVibrate [''session-started'', ''object-placed'', ''not-presenting''] s)
     = s\<lparr>arStatus := Idle, showMeasurements := False\<rparr>
   \<and> arStatus (fst (handleARStatuses hasVibrate
         [''session-started'', ''object-placed'', ''not-presenting''] s)) = Idle
   \<and> \<not> showMeasurements (fst (handleARStatuses hasVibrate
         [''session-started'', ''object-placed'', ''not-presenting''] s))"
  by (simp add: handleARStatus_def)

text \<open>
  C10. A status string that is none of not-presenting, session-started, object-placed and
  failed leaves the whole state as it was, the status and the overlay flag with it. The
  handler writes its log line and does nothing else: no vibration and no alert.
\<close>

theorem handleARStatus_unrecognized:
  assumes "status \<noteq> ''not-presenting''" and "status \<noteq> ''session-started''"
    and "status \<noteq> ''object-placed''" and "status \<noteq> ''failed''"
  shows "fst (handleARStatus hasVibrate status s) = s
         \<and> arStatus (fst (handleARStatus hasVibrate status s)) = arStatus s
         \<and> showMeasurements (fst (handleARStatus hasVibrate status s)) = showMeasurements s
         \<and> snd (handleARStatus hasVibrate status s) = [ConsoleLog [''AR Status:'', status]]
         \<and> (\<forall>p. Vibrate p \<notin> set (snd (handleARStatus hasVibrate status s)))
         \<and> (\<forall>m. Alert m \<notin> set (snd (handleARStatus hasVibrate status s)))"
  using assms by (simp add: handleARStatus_def)

theorem handleARStatus_unrecognized_witness:
  "''presenting'' \<noteq> ''not-presenting'' \<and> ''presenting'' \<noteq> ''session-started''
   \<and> ''presenting'' \<noteq> ''object-placed'' \<and> ''presenting'' \<noteq> ''failed''
   \<and> handleARStatus True ''presenting'' initialState
       = (initialState, [ConsoleLog [''AR Status:'', ''presenting'']])"
proof -
  have h: "''presenting'' \<noteq> ''not-presenting''" "''presenting'' \<noteq> ''session-started''"
    "''presenting'' \<noteq> ''object-placed''" "''presenting'' \<noteq> ''failed''"
    by simp_all
  from handleARStatus_unrecognized [OF h, of True initialState]
  have "fst (handleARStatus True ''presenting'' initialState) = initialState"
    and "snd (handleARStatus True ''presenting'' initialState)
          = [ConsoleLog [''AR Status:'', ''presenting'']]"
    by blast+
  then have "handleARStatus True ''presenting'' initialState
       = (initialState, [ConsoleLog [''AR Status:'', ''presenting'']])"
    by (simp add: prod_eq_iff)
  with h show ?thesis by blast
qed

section \<open>Requests to view in AR\<close>

lemma handleViewInARClick_desktop:
  "\<not> isMobile s \<Longrightarrow>
     handleViewInARClick s = (s, [ConsoleLog [''Desktop: QR code displayed automatically'']])"
  by (simp add: handleViewInARClick_def)

lemma viewInARClicks_desktop:
  "\<not> isMobile s \<Longrightarrow>
     viewInARClicks n s
       = (s, replicate n (ConsoleLog [''Desktop: QR code displayed automatically'']))"
  by (induction n) (simp_all add: handleViewInARClick_desktop)

text \<open>
  C6. In a state that is not flagged mobile and whose status is idle, any number of
  requests to view in AR leaves the status idle, indeed leaves the whole state as it was,
  and none of the effects is the activation of AR.
\<close>

theorem viewInARClicks_desktop_stays_idle:
  assumes "\<not> isMobile s" and "arStatus s = Idle"
  shows "arStatus (fst (viewInARClicks n s)) = Idle
         \<and> fst (viewInARClicks n s) = s
         \<and> ActivateAR \<notin> set (snd (viewInARClicks n s))"
  using assms by (simp add: viewInARClicks_desktop)

theorem viewInARClicks_desktop_stays_idle_witness:
  "\<not> isMobile initialState \<and> arStatus initialState = Idle
   \<and> arStatus (fst (viewInARClicks 3 initialState)) = Idle
   \<and> fst (viewInARClicks 3 initialState) = initialState
   \<and> ActivateAR \<notin> set (snd (viewInARClicks 3 initialState))"
proof -
  have h: "\<not> isMobile initialState" "arStatus initialState = Idle"
    by (simp_all add: initialState_def)
  from viewInARClicks_desktop_stays_idle [OF h, of 3] h show ?thesis by blast
qed


section \<open>Properties of the fit check\<close>

lemma js_gt_not_le: "js_gt a b \<Longrightarrow> \<not> js_le a b"
  by (cases a; cases b) auto








text \<open>
  C2. When an axis of the object is greater than the same axis of the room (4 by 2.8 by 5
  metres), the verdict is the critical one, \<open>fits\<close> false with the message that the
  object may not fit and the red colour, whatever the other two axes are.
\<close>

theorem evaluate_too_large:
  assumes "js_gt (width d) estimatedRoomWidth \<or> js_gt (height d) estimatedRoomHeight
           \<or> js_gt (depth d) estimatedRoomDepth"
  shows "evaluate d = critical_result \<and> fits (evaluate d) = False
         \<and> message (evaluate d) = ''Object may not fit here - Too large for space''
         \<and> color (evaluate d) = ''#ef4444''"
proof -
  from assms have "\<not> allFit d"
    by (auto simp: allFit_def dest: js_gt_not_le)
  then show ?thesis
    by (simp add: evaluate_def critical_result_def)
qed

theorem evaluate_too_large_witness:
  "js_gt (width \<lparr>width = Fin 5, height = Fin 1, depth = Fin 1\<rparr>) estimatedRoomWidth
   \<and> evaluate \<lparr>width = Fin 5, height = Fin 1, depth = Fin 1\<rparr> = critical_result
   \<and> \<not> fits (evaluate \<lparr>width = Fin 5, height = Fin 1, depth = Fin 1\<rparr>)"
proof -
  let ?d = "\<lparr>width = Fin 5, height = Fin 1, depth = Fin 1\<rparr>"
  have h: "js_gt (width ?d) estimatedRoomWidth"
    by (simp add: estimatedRoomWidth_def)
  then have "js_gt (width ?d) estimatedRoomWidth \<or> js_gt (height ?d) estimatedRoomHeight
             \<or> js_gt (depth ?d) estimatedRoomDepth" by blast
  from evaluate_too_large [OF this] h show ?thesis by blast
qed





section \<open>Properties of the capture\<close>



text \<open>
  C8. With no viewer element in \<open>modelViewerRef\<close>, \<open>captureARImage\<close> alerts that the
  viewer is not ready and returns: the state is as it was, the alert is the only effect
  (no link is built or clicked, so nothing is downloaded), and the promise is fulfilled.
\<close>

theorem captureARImage_no_viewer:
  assumes "modelViewerRef s = None"
  shows "captureARImage env s = (s, [Alert ''Model viewer not ready''], Fulfilled ())
         \<and> (\<forall>l. Click l \<notin> set (fst (snd (captureARImage env s))))
         \<and> snd (snd (captureARImage env s)) \<noteq> Rejected"
  using assms by (simp add: captureARImage_def)

theorem captureARImage_no_viewer_witness:
  "modelViewerRef initialState = None
   \<and> captureARImage
        \<lparr>toBlob = Fulfilled (), createObjectURL = Returns ''blob:1'',
         toISOString = ''2024-05-06T07:08:09.010Z'', bodyChildren = [1, 2],
         vibrateInNavigator = True\<rparr>
        initialState
       = (initialState, [Alert ''Model viewer not ready''], Fulfilled ())"
proof -
  have h: "modelViewerRef initialState = None"
    by (simp add: initialState_def)
  from captureARImage_no_viewer [OF h] h show ?thesis by blast
qed



end
